theory Spec2Isabelle
  imports Complex_Main "HOL-Library.Signed_Division"
begin

section \<open>QSimpleUpdater: the Downloader of \<^verbatim>\<open>src/Downloader.cpp\<close>\<close>

text \<open>
  The Downloader is a Qt widget whose slots react to the signals of one network reply.
  Each slot is modelled as a function on a record of the Downloader's members together
  with the part of the world the slots touch: the reply object, the \<^verbatim>\<open>QSaveFile\<close>
  objects on the C++ heap, the files on disk, the dialog's widgets, and a chronological
  trace of the calls made on collaborators (signals, warnings, transport calls).
  What the surroundings decide (the clock, whether a file opens, which button the user
  clicks) is an argument of the slot, collected in the record \<open>env\<close>.
\<close>

subsection \<open>QString and QFileInfo operations\<close>

text \<open>\<^verbatim>\<open>QString::indexOf(needle)\<close>: position of the first occurrence, or -1.\<close>

fun indexOf :: "string \<Rightarrow> string \<Rightarrow> int" where
  "indexOf [] needle = (if needle = [] then 0 else - 1)"
| "indexOf (c # cs) needle =
     (if take (length needle) (c # cs) = needle then 0
      else (let r = indexOf cs needle in if r < 0 then - 1 else r + 1))"

text \<open>\<^verbatim>\<open>QString::indexOf(ch, from)\<close> for a character and a non-negative start.\<close>

definition indexOfFrom :: "string \<Rightarrow> char \<Rightarrow> nat \<Rightarrow> int" where
  "indexOfFrom str ch from =
     (let r = indexOf (drop from str) [ch] in if r < 0 then - 1 else r + int from)"

text \<open>\<^verbatim>\<open>QString::mid(pos)\<close>, \<^verbatim>\<open>QString::mid(pos, n)\<close> and \<^verbatim>\<open>QString::left(n)\<close>
  for the non-negative arguments the Downloader passes.\<close>

definition mid :: "string \<Rightarrow> int \<Rightarrow> string" where
  "mid str pos = drop (nat pos) str"

definition mid_n :: "string \<Rightarrow> int \<Rightarrow> int \<Rightarrow> string" where
  "mid_n str pos n = take (nat n) (drop (nat pos) str)"

definition left :: "string \<Rightarrow> int \<Rightarrow> string" where
  "left str n = take (nat n) str"

definition startsWith :: "string \<Rightarrow> char \<Rightarrow> bool" where
  "startsWith str ch = (case str of [] \<Rightarrow> False | c # _ \<Rightarrow> c = ch)"

text \<open>\<^verbatim>\<open>QString::remove(ch)\<close>: every occurrence of the character is removed.\<close>

definition remove_char :: "char \<Rightarrow> string \<Rightarrow> string" where
  "remove_char ch str = filter (\<lambda>c. c \<noteq> ch) str"

text \<open>\<^verbatim>\<open>QFileInfo(path).fileName()\<close>: what follows the last \<^verbatim>\<open>/\<close> (the separator Qt
  uses internally on every platform).\<close>

definition fileName :: "string \<Rightarrow> string" where
  "fileName p = rev (takeWhile (\<lambda>c. c \<noteq> CHR ''/'') (rev p))"

text \<open>\<^verbatim>\<open>QDir(dir).filePath(name)\<close>: an absolute name is returned as it is, a relative
  one is appended to the directory.\<close>

definition filePath :: "string \<Rightarrow> string \<Rightarrow> string" where
  "filePath dir name =
     (if startsWith name (CHR ''/'') then name
      else if dir \<noteq> [] \<and> last dir = CHR ''/'' then dir @ name
      else dir @ ''/'' @ name)"

subsection \<open>The reply, the save file and the dialog\<close>

datatype network_error = NoError | OperationCanceledError | TimeoutError | OtherNetworkError nat

text \<open>The \<^verbatim>\<open>QNetworkReply\<close> behind \<^verbatim>\<open>m_reply\<close>. \<open>r_bytes\<close> holds what has arrived and
  has not been read yet: \<^verbatim>\<open>bytesAvailable()\<close> is its length and
  \<^verbatim>\<open>read(bytesAvailable())\<close> returns and removes it.\<close>

record reply =
  r_url :: string
  r_error :: network_error
  r_errorString :: string
  r_isFinished :: bool
  r_bytes :: string
  r_redirectionTarget :: string
  r_contentDisposition :: "string option"

text \<open>A \<^verbatim>\<open>QSaveFile\<close> object: the final path it was created for, whether its temporary
  file is open, what has been written to the temporary file, and the error flag that
  makes \<^verbatim>\<open>commit()\<close> fail (set by a failed write and by \<^verbatim>\<open>cancelWriting()\<close>).\<close>

record save_file =
  sf_fileName :: string
  sf_isOpen :: bool
  sf_data :: string
  sf_error :: bool

type_synonym addr = nat

text \<open>The numbers shown in the labels, with their unit.\<close>

datatype size_text = Bytes int | KB rat | MB rat

datatype download_label =
    Label_from_form
  | Downloading_updates
  | Downloading_updates_of size_text size_text
  | Downloading_Updates_dots

datatype time_text =
    About_hours int | About_one_hour
  | Minutes int | One_minute
  | Seconds int | One_second
  | Empty_text

datatype time_label =
    Time_from_form
  | Time_remaining_unknown
  | Time_Remaining_Unknown
  | Time_remaining time_text
  | Installer_will_open

datatype prompt = Continue_Quit | Yes_No

datatype effect =
    SaveFile_new addr string
  | SaveFile_open addr bool
  | SaveFile_write addr string
  | SaveFile_cancelWriting addr
  | SaveFile_commit addr bool
  | SaveFile_delete addr
  | Manager_get string string
  | Reply_abort
  | Reply_close
  | Mkpath string
  | Emit_downloadFinished string string
  | Warning string
  | Debug string
  | OpenUrl string
  | MessageBox_critical string
  | MessageBox_question prompt
  | Process_exit int

record downloader =
  m_url :: string
  m_fileName :: string
  m_startTime :: int
  m_useCustomProcedures :: bool
  m_mandatoryUpdate :: bool
  m_downloadDir :: string
  m_userAgentString :: string
  m_saveFile :: "addr option"
  m_reply :: reply
  heap :: "addr \<rightharpoonup> save_file"
  next_addr :: addr
  files :: "string \<rightharpoonup> string"
  dirs :: "string set"
  progress_min :: int
  progress_max :: int
  progress_value :: int
  stopButton_text :: string
  downloadLabel :: download_label
  timeLabel :: time_label
  openButton_enabled :: bool
  openButton_visible :: bool
  visible :: bool
  trace :: "effect list"
  exited :: "int option"

datatype mandatory_button = ContinueButton | QuitButton

datatype standard_button = Yes | No

record env =
  e_now :: int
  e_open_ok :: bool
  e_write_ok :: bool
  e_rename_ok :: bool
  e_clicked :: mandatory_button
  e_answer :: standard_button

datatype crash = DivisionByZero

definition emit :: "effect \<Rightarrow> downloader \<Rightarrow> downloader" where
  "emit e s = s\<lparr>trace := trace s @ [e]\<rparr>"

text \<open>What a slot appended to the trace.\<close>

definition effects :: "downloader \<Rightarrow> downloader \<Rightarrow> effect list" where
  "effects s s' = drop (length (trace s)) (trace s')"

fun is_signal :: "effect \<Rightarrow> bool" where
  "is_signal (Emit_downloadFinished _ _) = True"
| "is_signal _ = False"

fun is_commit :: "effect \<Rightarrow> bool" where
  "is_commit (SaveFile_commit _ _) = True"
| "is_commit _ = False"

fun is_discard :: "effect \<Rightarrow> bool" where
  "is_discard (SaveFile_cancelWriting _) = True"
| "is_discard _ = False"

fun is_prompt :: "effect \<Rightarrow> bool" where
  "is_prompt (MessageBox_question _) = True"
| "is_prompt _ = False"

subsection \<open>QSaveFile\<close>

text \<open>\<^verbatim>\<open>new QSaveFile(path)\<close> at the next free address.\<close>

definition sf_new :: "string \<Rightarrow> downloader \<Rightarrow> downloader" where
  "sf_new p s =
     emit (SaveFile_new (next_addr s) p)
       (s\<lparr>heap := (heap s)(next_addr s \<mapsto>
              \<lparr>sf_fileName = p, sf_isOpen = False, sf_data = [], sf_error = False\<rparr>),
          next_addr := Suc (next_addr s)\<rparr>)"

text \<open>\<^verbatim>\<open>open(QIODevice::WriteOnly)\<close>: creates the temporary file, or fails.\<close>

definition sf_open :: "bool \<Rightarrow> addr \<Rightarrow> downloader \<Rightarrow> downloader" where
  "sf_open ok a s =
     emit (SaveFile_open a ok)
       (case heap s a of
          None \<Rightarrow> s
        | Some f \<Rightarrow> if ok then s\<lparr>heap := (heap s)(a \<mapsto> f\<lparr>sf_isOpen := True\<rparr>)\<rparr> else s)"

definition sf_isOpen_at :: "downloader \<Rightarrow> addr \<Rightarrow> bool" where
  "sf_isOpen_at s a = (case heap s a of None \<Rightarrow> False | Some f \<Rightarrow> sf_isOpen f)"

text \<open>\<^verbatim>\<open>write(bytes)\<close>: appends to the temporary file; a failed write sets the error flag.\<close>

definition sf_write :: "bool \<Rightarrow> addr \<Rightarrow> string \<Rightarrow> downloader \<Rightarrow> downloader" where
  "sf_write ok a bs s =
     emit (SaveFile_write a bs)
       (case heap s a of
          None \<Rightarrow> s
        | Some f \<Rightarrow>
            if ok then s\<lparr>heap := (heap s)(a \<mapsto> f\<lparr>sf_data := sf_data f @ bs\<rparr>)\<rparr>
            else s\<lparr>heap := (heap s)(a \<mapsto> f\<lparr>sf_error := True\<rparr>)\<rparr>)"

text \<open>\<^verbatim>\<open>cancelWriting()\<close>: sets the error flag of an open file, so that nothing is ever
  promoted to the final path.\<close>

definition sf_cancelWriting :: "addr \<Rightarrow> downloader \<Rightarrow> downloader" where
  "sf_cancelWriting a s =
     emit (SaveFile_cancelWriting a)
       (case heap s a of
          None \<Rightarrow> s
        | Some f \<Rightarrow> if sf_isOpen f then s\<lparr>heap := (heap s)(a \<mapsto> f\<lparr>sf_error := True\<rparr>)\<rparr> else s)"

text \<open>\<^verbatim>\<open>commit()\<close>: closes the file; without an error and when the rename succeeds the
  temporary file becomes the file at the final path. The result is the second component.\<close>

definition sf_commit :: "bool \<Rightarrow> addr \<Rightarrow> downloader \<Rightarrow> downloader \<times> bool" where
  "sf_commit rename_ok a s =
     (case heap s a of
        None \<Rightarrow> (emit (SaveFile_commit a False) s, False)
      | Some f \<Rightarrow>
          (let ok = (sf_isOpen f \<and> \<not> sf_error f \<and> rename_ok);
               s1 = s\<lparr>heap := (heap s)(a \<mapsto> f\<lparr>sf_isOpen := False\<rparr>)\<rparr>;
               s2 = (if ok then s1\<lparr>files := (files s1)(sf_fileName f \<mapsto> sf_data f)\<rparr> else s1)
           in (emit (SaveFile_commit a ok) s2, ok)))"

text \<open>\<^verbatim>\<open>delete\<close>: the destructor removes a temporary file that was not committed.\<close>

definition sf_delete :: "addr \<Rightarrow> downloader \<Rightarrow> downloader" where
  "sf_delete a s = emit (SaveFile_delete a) (s\<lparr>heap := (heap s)(a := None)\<rparr>)"

subsection \<open>The slots of the Downloader\<close>

text \<open>The constructor: the members as it initialises them, no reply yet, no save file,
  an empty trace. The arguments are the home directory and what is on disk.\<close>

definition new_reply :: "string \<Rightarrow> reply" where
  "new_reply url =
     \<lparr>r_url = url, r_error = NoError, r_errorString = [], r_isFinished = False,
      r_bytes = [], r_redirectionTarget = [], r_contentDisposition = None\<rparr>"

definition Downloader :: "string \<Rightarrow> (string \<rightharpoonup> string) \<Rightarrow> string set \<Rightarrow> downloader" where
  "Downloader home fs ds =
     \<lparr>m_url = [], m_fileName = [], m_startTime = 0, m_useCustomProcedures = False,
      m_mandatoryUpdate = False, m_downloadDir = home @ ''/Downloads/'',
      m_userAgentString = [], m_saveFile = None, m_reply = new_reply [],
      heap = Map.empty, next_addr = 0, files = fs, dirs = ds,
      progress_min = 0, progress_max = 100, progress_value = 0,
      stopButton_text = ''Stop'', downloadLabel = Label_from_form,
      timeLabel = Time_from_form, openButton_enabled = False,
      openButton_visible = False, visible = False, trace = [], exited = None\<rparr>"

definition setUrlId :: "string \<Rightarrow> downloader \<Rightarrow> downloader" where
  "setUrlId url s = s\<lparr>m_url := url\<rparr>"

definition setUserAgentString :: "string \<Rightarrow> downloader \<Rightarrow> downloader" where
  "setUserAgentString agent s = s\<lparr>m_userAgentString := agent\<rparr>"

definition setDownloadDir :: "string \<Rightarrow> downloader \<Rightarrow> downloader" where
  "setDownloadDir d s = (if m_downloadDir s \<noteq> d then s\<lparr>m_downloadDir := d\<rparr> else s)"

definition setMandatoryUpdate :: "bool \<Rightarrow> downloader \<Rightarrow> downloader" where
  "setMandatoryUpdate mandatory_update s = s\<lparr>m_mandatoryUpdate := mandatory_update\<rparr>"

definition setUseCustomInstallProcedures :: "bool \<Rightarrow> downloader \<Rightarrow> downloader" where
  "setUseCustomInstallProcedures custom s = s\<lparr>m_useCustomProcedures := custom\<rparr>"

text \<open>The block \<^verbatim>\<open>if (m_saveFile) { m_saveFile->cancelWriting(); delete m_saveFile;
  m_saveFile = nullptr; }\<close>, which \<^verbatim>\<open>startDownload\<close> and \<^verbatim>\<open>finished\<close> both contain.\<close>

definition discard_saveFile :: "downloader \<Rightarrow> downloader" where
  "discard_saveFile s =
     (case m_saveFile s of
        None \<Rightarrow> s
      | Some a \<Rightarrow> (sf_delete a (sf_cancelWriting a s))\<lparr>m_saveFile := None\<rparr>)"

definition startDownload :: "env \<Rightarrow> string \<Rightarrow> downloader \<Rightarrow> downloader" where
  "startDownload env url s =
     (let s1 = s\<lparr>progress_value := 0, stopButton_text := ''Stop'',
                 downloadLabel := Downloading_updates,
                 timeLabel := Time_remaining_unknown\<rparr>;
          s2 = discard_saveFile s1;
          s3 = (emit (Manager_get url (m_userAgentString s2)) s2)
                 \<lparr>m_reply := new_reply url, m_startTime := e_now env\<rparr>;
          s4 = (if m_downloadDir s3 \<in> dirs s3 then s3
                else (emit (Mkpath (m_downloadDir s3)) s3)
                       \<lparr>dirs := insert (m_downloadDir s3) (dirs s3)\<rparr>)
      in s4\<lparr>visible := True\<rparr>)"

definition setFileName :: "string \<Rightarrow> downloader \<Rightarrow> downloader" where
  "setFileName file s =
     (let sanitizedFile = remove_char (CHR '';'') (remove_char (CHR 0x22) file)
      in s\<lparr>m_fileName := (if sanitizedFile = [] then ''QSU_Update.bin'' else sanitizedFile)\<rparr>)"

definition openDownload :: "downloader \<Rightarrow> downloader" where
  "openDownload s =
     (if m_fileName s \<noteq> [] then
        (let p = filePath (m_downloadDir s) (m_fileName s)
         in if files s p \<noteq> None then emit (OpenUrl p) (emit (Debug (''Opening update file: '' @ p)) s)
            else emit (MessageBox_critical (''Cannot find downloaded update at '' @ p))
                   (emit (Debug (''Update file not found at: '' @ p)) s))
      else emit (MessageBox_critical ''Cannot find downloaded update: filename is empty'') s)"

text \<open>\<^verbatim>\<open>if (m_saveFile && m_saveFile->isOpen())
  m_saveFile->write(m_reply->read(m_reply->bytesAvailable()));\<close>\<close>

definition write_received :: "env \<Rightarrow> downloader \<Rightarrow> downloader" where
  "write_received env s =
     (case m_saveFile s of
        None \<Rightarrow> s
      | Some a \<Rightarrow>
          if sf_isOpen_at s a
          then sf_write (e_write_ok env) a (r_bytes (m_reply s))
                 (s\<lparr>m_reply := (m_reply s)\<lparr>r_bytes := []\<rparr>\<rparr>)
          else s)"

text \<open>\<^verbatim>\<open>m_reply->close()\<close>: what was not read is gone.\<close>

definition reply_close :: "downloader \<Rightarrow> downloader" where
  "reply_close s = emit Reply_close (s\<lparr>m_reply := (m_reply s)\<lparr>r_bytes := []\<rparr>\<rparr>)"

definition finished :: "env \<Rightarrow> downloader \<Rightarrow> downloader" where
  "finished env s =
     (if r_error (m_reply s) \<noteq> NoError then
        emit (Warning (''Download error: '' @ r_errorString (m_reply s))) (discard_saveFile s)
      else
        (let s1 = (if 0 < length (r_bytes (m_reply s)) then write_received env s else s);
             (s2, fileSuccess) =
               (case m_saveFile s1 of
                  None \<Rightarrow> (s1, False)
                | Some a \<Rightarrow>
                    (let (t, ok) = sf_commit (e_rename_ok env) a s1
                     in ((sf_delete a t)\<lparr>m_saveFile := None\<rparr>, ok)));
             s3 = (if fileSuccess
                   then emit (Emit_downloadFinished (m_url s2)
                                (filePath (m_downloadDir s2) (m_fileName s2))) s2
                   else emit (Warning ''Failed to save downloaded file'') s2);
             s4 = reply_close s3;
             s5 = s4\<lparr>openButton_enabled := fileSuccess, openButton_visible := fileSuccess,
                     timeLabel := Installer_will_open\<rparr>;
             s6 = (if fileSuccess \<and> \<not> m_useCustomProcedures s5
                   then openDownload
                          (emit (Debug (''Opening update file from finished(): ''
                                   @ filePath (m_downloadDir s5) (m_fileName s5))) s5)
                   else s5)
         in s6\<lparr>visible := False\<rparr>))"

definition installUpdate :: "downloader \<Rightarrow> downloader" where
  "installUpdate s =
     s\<lparr>openButton_enabled := False, openButton_visible := False,
       timeLabel := Installer_will_open\<rparr>"

definition hide :: "downloader \<Rightarrow> downloader" where
  "hide s = s\<lparr>visible := False\<rparr>"

text \<open>\<^verbatim>\<open>exit(0)\<close>: the process ends; nothing after it runs.\<close>

definition process_exit :: "int \<Rightarrow> downloader \<Rightarrow> downloader" where
  "process_exit c s = (emit (Process_exit c) s)\<lparr>exited := Some c\<rparr>"

text \<open>\<^verbatim>\<open>m_reply->abort()\<close>: a reply still in flight ends with
  \<^verbatim>\<open>OperationCanceledError\<close> and emits \<^verbatim>\<open>finished()\<close>, which \<^verbatim>\<open>startDownload\<close>
  connected to the slot \<^verbatim>\<open>finished()\<close>, so the slot runs inside the call. On a reply
  that has finished the call does nothing.\<close>

definition reply_abort :: "env \<Rightarrow> downloader \<Rightarrow> downloader" where
  "reply_abort env s =
     (if r_isFinished (m_reply s) then emit Reply_abort s
      else finished env
             ((emit Reply_abort s)
                \<lparr>m_reply := (m_reply s)\<lparr>r_error := OperationCanceledError,
                                       r_errorString := ''Operation canceled'',
                                       r_isFinished := True\<rparr>\<rparr>))"

definition cancelDownload :: "env \<Rightarrow> downloader \<Rightarrow> downloader" where
  "cancelDownload env s =
     (if \<not> r_isFinished (m_reply s) then
        (if m_mandatoryUpdate s then
           (let s1 = emit (MessageBox_question Continue_Quit) s
            in if e_clicked env = QuitButton
               then process_exit 0 (reply_abort env (hide s1))
               else s1)
         else
           (let s1 = emit (MessageBox_question Yes_No) s
            in if e_answer env = Yes then reply_abort env (hide s1) else s1))
      else
        (if m_mandatoryUpdate s then process_exit 0 (hide s) else hide s))"

definition processReceivedData :: "env \<Rightarrow> downloader \<Rightarrow> downloader" where
  "processReceivedData env s =
     (let url = r_redirectionTarget (m_reply s)
      in if url \<noteq> [] then startDownload env url s
         else if m_fileName s = [] then s
         else
           (case m_saveFile s of
              Some a \<Rightarrow> write_received env s
            | None \<Rightarrow>
                (let a = next_addr s;
                     s1 = (sf_new (filePath (m_downloadDir s) (m_fileName s)) s)
                            \<lparr>m_saveFile := Some a\<rparr>;
                     s2 = sf_open (e_open_ok env) a s1
                 in if \<not> e_open_ok env
                    then (sf_delete a (emit (Warning ''Failed to open file for writing'') s2))
                           \<lparr>m_saveFile := None\<rparr>
                    else write_received env s2)))"

subsection \<open>Progress display\<close>

text \<open>\<^verbatim>\<open>roundf\<close> rounds to the nearest integer, halves away from zero. \<^verbatim>\<open>round\<close>
  computes in \<^verbatim>\<open>float\<close>; the model computes exactly, which agrees on the integers below
  \<open>2 ^ 24 div 100\<close> that \<^verbatim>\<open>calculateSizes\<close> passes for every size below 160 GB.\<close>

definition roundf :: "rat \<Rightarrow> int" where
  "roundf x = (if 0 \<le> x then \<lfloor>x + 1 / 2\<rfloor> else - \<lfloor>- x + 1 / 2\<rfloor>)"

definition round_2dp :: "rat \<Rightarrow> rat" where
  "round_2dp input = of_int (roundf (input * 100)) / 100"

text \<open>\<^verbatim>\<open>total / 1024\<close> is a division of \<^verbatim>\<open>qint64\<close> by \<^verbatim>\<open>int\<close>: an integer division
  that truncates, whose quotient is then converted to \<^verbatim>\<open>qreal\<close> for \<^verbatim>\<open>round\<close>.\<close>

definition calculateSizes :: "int \<Rightarrow> int \<Rightarrow> downloader \<Rightarrow> downloader" where
  "calculateSizes received total' s =
     (let totalSize =
            (if total' < 1024 then Bytes total'
             else if total' < 1048576 then KB (round_2dp (of_int (total' sdiv 1024)))
             else MB (round_2dp (of_int (total' sdiv 1048576))));
          receivedSize =
            (if received < 1024 then Bytes received
             else if received < 1048576 then KB (of_int (received sdiv 1024))
             else MB (of_int (received sdiv 1048576)))
      in s\<lparr>downloadLabel := Downloading_updates_of receivedSize totalSize\<rparr>)"

text \<open>\<^verbatim>\<open>int(x)\<close> on a \<^verbatim>\<open>qreal\<close> truncates towards zero.\<close>

definition trunc :: "rat \<Rightarrow> int" where
  "trunc x = (if 0 \<le> x then \<lfloor>x\<rfloor> else \<lceil>x\<rceil>)"

text \<open>\<^verbatim>\<open>uint difference = now - m_startTime\<close> keeps the low 32 bits of the difference.
  In \<^verbatim>\<open>received / difference\<close> the \<^verbatim>\<open>uint\<close> is converted to \<^verbatim>\<open>qint64\<close>, so both
  divisions are integer divisions that truncate, and a zero divisor ends the process.\<close>

definition calculateTimeRemaining :: "env \<Rightarrow> int \<Rightarrow> int \<Rightarrow> downloader \<Rightarrow> crash + downloader" where
  "calculateTimeRemaining env received total' s =
     (let difference = (e_now env - m_startTime s) mod 2 ^ 32
      in if 0 < difference then
           (if received sdiv difference = 0 then Inl DivisionByZero
            else
              (let timeRemaining = (of_int ((total' - received) sdiv (received sdiv difference)) :: rat);
                   timeString =
                     (if 7200 < timeRemaining then
                        (let hours = trunc (timeRemaining / 3600 + 1 / 2)
                         in if 1 < hours then About_hours hours else About_one_hour)
                      else if 60 < timeRemaining then
                        (let minutes = trunc (timeRemaining / 60 + 1 / 2)
                         in if 1 < minutes then Minutes minutes else One_minute)
                      else if timeRemaining \<le> 60 then
                        (let seconds = trunc (timeRemaining + 1 / 2)
                         in if 1 < seconds then Seconds seconds else One_second)
                      else Empty_text)
               in Inr (s\<lparr>timeLabel := Time_remaining timeString\<rparr>)))
         else Inr s)"

definition updateProgress :: "env \<Rightarrow> int \<Rightarrow> int \<Rightarrow> downloader \<Rightarrow> crash + downloader" where
  "updateProgress env received total' s =
     (if 0 < total' then
        calculateTimeRemaining env received total'
          (calculateSizes received total'
             (s\<lparr>progress_min := 0, progress_max := 100,
                progress_value := (received * 100) sdiv total'\<rparr>))
      else
        Inr (s\<lparr>progress_min := 0, progress_max := 0, progress_value := - 1,
               downloadLabel := Downloading_Updates_dots,
               timeLabel := Time_Remaining_Unknown\<rparr>))"

subsection \<open>The file name from the response headers\<close>

text \<open>The body of \<^verbatim>\<open>if (filenamePos >= 0)\<close> up to the call of \<^verbatim>\<open>setFileName\<close>: what
  follows \<^verbatim>\<open>filename=\<close>, cut at the closing quote or at a separator, without its
  directories.\<close>

definition header_filename :: "string \<Rightarrow> int \<Rightarrow> string" where
  "header_filename contentDisposition filenamePos =
     (let filename = mid contentDisposition (filenamePos + 9);
          filename1 =
            (if startsWith filename (CHR 0x22) then
               (let endQuotePos = indexOfFrom filename (CHR 0x22) 1
                in if 0 < endQuotePos then mid_n filename 1 (endQuotePos - 1) else filename)
             else
               (let endPos0 = indexOf filename '';'';
                    endPos = (if endPos0 < 0 then indexOf filename '' '' else endPos0)
                in if 0 < endPos then left filename endPos else filename))
      in fileName filename1)"

definition metaDataChanged :: "downloader \<Rightarrow> downloader" where
  "metaDataChanged s =
     (case r_contentDisposition (m_reply s) of
        None \<Rightarrow> s
      | Some contentDisposition \<Rightarrow>
          (let filenamePos = indexOf contentDisposition ''filename=''
           in if 0 \<le> filenamePos
              then setFileName (header_filename contentDisposition filenamePos) s
              else s))"

subsection \<open>The transport's side of the signals\<close>

text \<open>What the network does to the reply before it raises a signal: response headers
  arrive (before \<^verbatim>\<open>metaDataChanged\<close>), bytes arrive (before \<^verbatim>\<open>readyRead\<close>), the
  transfer ends (before \<^verbatim>\<open>finished\<close>).\<close>

definition respond :: "string option \<Rightarrow> string \<Rightarrow> downloader \<Rightarrow> downloader" where
  "respond cd target s =
     s\<lparr>m_reply := (m_reply s)\<lparr>r_contentDisposition := cd, r_redirectionTarget := target\<rparr>\<rparr>"

definition receive :: "string \<Rightarrow> downloader \<Rightarrow> downloader" where
  "receive bs s = s\<lparr>m_reply := (m_reply s)\<lparr>r_bytes := r_bytes (m_reply s) @ bs\<rparr>\<rparr>"

definition complete :: "network_error \<Rightarrow> string \<Rightarrow> downloader \<Rightarrow> downloader" where
  "complete err msg s =
     s\<lparr>m_reply := (m_reply s)\<lparr>r_error := err, r_errorString := msg, r_isFinished := True\<rparr>\<rparr>"

datatype event =
    StartDownload string
  | SetFileName string
  | MetaDataChanged "string option" string
  | ReadyRead string
  | Finished network_error string
  | CancelClicked

fun fire :: "env \<Rightarrow> event \<Rightarrow> downloader \<Rightarrow> downloader" where
  "fire env (StartDownload url) s = startDownload env url s"
| "fire env (SetFileName file) s = setFileName file s"
| "fire env (MetaDataChanged cd target) s = metaDataChanged (respond cd target s)"
| "fire env (ReadyRead bs) s = processReceivedData env (receive bs s)"
| "fire env (Finished err msg) s = finished env (complete err msg s)"
| "fire env CancelClicked s = cancelDownload env s"

text \<open>A run of the dialog: one event after the other, until the process has exited.\<close>

fun run :: "(env \<times> event) list \<Rightarrow> downloader \<Rightarrow> downloader" where
  "run [] s = s"
| "run ((env, ev) # evs) s = (if exited s \<noteq> None then s else run evs (fire env ev s))"

subsection \<open>Observations on states and traces\<close>

fun is_commit_of :: "addr \<Rightarrow> effect \<Rightarrow> bool" where
  "is_commit_of a (SaveFile_commit b _) = (a = b)"
| "is_commit_of a _ = False"

fun is_discard_of :: "addr \<Rightarrow> effect \<Rightarrow> bool" where
  "is_discard_of a (SaveFile_cancelWriting b) = (a = b)"
| "is_discard_of a _ = False"

fun is_exit :: "effect \<Rightarrow> bool" where
  "is_exit (Process_exit _) = True"
| "is_exit _ = False"

fun is_abort :: "effect \<Rightarrow> bool" where
  "is_abort Reply_abort = True"
| "is_abort _ = False"

text \<open>The save files on the heap are exactly the one \<^verbatim>\<open>m_saveFile\<close> points to, if any:
  no second artifact, none that nothing refers to, and no dangling pointer.\<close>

definition one_artifact :: "downloader \<Rightarrow> bool" where
  "one_artifact s = (dom (heap s) = set_option (m_saveFile s))"

text \<open>The unquoted value as the specification words it: up to the first \<^verbatim>\<open>;\<close> or the
  first whitespace, whichever comes first.\<close>

definition spec_unquoted_value :: "string \<Rightarrow> string" where
  "spec_unquoted_value v = takeWhile (\<lambda>c. c \<noteq> CHR '';'' \<and> c \<noteq> CHR '' '') v"

subsection \<open>Sample sessions\<close>

definition env_ok :: env where
  "env_ok = \<lparr>e_now = 10, e_open_ok = True, e_write_ok = True, e_rename_ok = True,
             e_clicked = ContinueButton, e_answer = No\<rparr>"

definition env_accept :: env where
  "env_accept = env_ok\<lparr>e_clicked := QuitButton, e_answer := Yes\<rparr>"

definition env_open_fails :: env where
  "env_open_fails = env_ok\<lparr>e_open_ok := False\<rparr>"

text \<open>A dialog whose download has started at second 0.\<close>

definition s_started :: downloader where
  "s_started =
     startDownload (env_ok\<lparr>e_now := 0\<rparr>) ''http://host/update''
       (setUrlId ''http://host/appcast'' (Downloader ''/home/u'' Map.empty {}))"

text \<open>The transfer succeeds, but no file name was set and the response names none:
  the bytes that arrived were never written.\<close>

definition s_unnamed_done :: downloader where
  "s_unnamed_done =
     complete NoError [] (processReceivedData env_ok (receive ''DATA'' s_started))"

text \<open>The host names the file, two bytes are staged.\<close>

definition s_receiving :: downloader where
  "s_receiving = processReceivedData env_ok (receive ''AB'' (setFileName ''update.bin'' s_started))"

text \<open>The transfer then times out.\<close>

definition s_timed_out :: downloader where
  "s_timed_out = complete TimeoutError ''Socket operation timed out'' s_receiving"

text \<open>The first response names a file and redirects; its first bytes arrive.\<close>

definition s_redirected :: downloader where
  "s_redirected =
     receive ''x''
       (metaDataChanged
          (respond (Some ''attachment; filename=old.bin'') ''http://mirror/update'' s_started))"

text \<open>Two bytes have arrived for a named file that is not open yet.\<close>

definition s_first_chunk :: downloader where
  "s_first_chunk = receive ''AB'' (setFileName ''update.bin'' s_started)"

section \<open>Properties\<close>

subsection \<open>What each step does to the trace and to the members\<close>

lemma effects_append: "trace s' = trace s @ es \<Longrightarrow> effects s s' = es"
  by (simp add: effects_def)

lemma discard_saveFile_props:
  "trace (discard_saveFile s) = trace s @
     (case m_saveFile s of None \<Rightarrow> [] | Some a \<Rightarrow> [SaveFile_cancelWriting a, SaveFile_delete a])"
  "m_saveFile (discard_saveFile s) = None"
  "heap (discard_saveFile s) =
     (case m_saveFile s of None \<Rightarrow> heap s | Some a \<Rightarrow> (heap s)(a := None))"
  "files (discard_saveFile s) = files s"
  "dirs (discard_saveFile s) = dirs s"
  "m_reply (discard_saveFile s) = m_reply s"
  "m_fileName (discard_saveFile s) = m_fileName s"
  "m_downloadDir (discard_saveFile s) = m_downloadDir s"
  "m_userAgentString (discard_saveFile s) = m_userAgentString s"
  "visible (discard_saveFile s) = visible s"
  "exited (discard_saveFile s) = exited s"
  by (simp_all add: discard_saveFile_def sf_delete_def sf_cancelWriting_def emit_def
      split: option.splits)

lemma write_received_props:
  "trace (write_received env s) = trace s @ effects s (write_received env s)"
  "m_saveFile (write_received env s) = m_saveFile s"
  "files (write_received env s) = files s"
  "m_url (write_received env s) = m_url s"
  "m_fileName (write_received env s) = m_fileName s"
  "m_downloadDir (write_received env s) = m_downloadDir s"
  "m_useCustomProcedures (write_received env s) = m_useCustomProcedures s"
  "exited (write_received env s) = exited s"
  by (simp_all add: write_received_def effects_def sf_write_def emit_def split: option.splits)

lemma write_received_dom: "dom (heap (write_received env s)) = dom (heap s)"
proof (cases "m_saveFile s")
  case None
  then show ?thesis by (simp add: write_received_def)
next
  case (Some a)
  show ?thesis
  proof (cases "heap s a")
    case None
    with Some show ?thesis by (simp add: write_received_def sf_write_def emit_def)
  next
    case (Some f)
    then have "a \<in> dom (heap s)" by auto
    then have "insert a (dom (heap s)) = dom (heap s)" by auto
    with Some \<open>m_saveFile s = Some a\<close> show ?thesis
      by (simp add: write_received_def sf_write_def emit_def)
  qed
qed

lemma write_received_effects:
  "filter is_commit (effects s (write_received env s)) = []"
  "filter is_discard (effects s (write_received env s)) = []"
  "filter is_signal (effects s (write_received env s)) = []"
  "filter (is_commit_of a) (effects s (write_received env s)) = []"
  "filter (is_discard_of a) (effects s (write_received env s)) = []"
  by (simp_all add: write_received_def effects_def sf_write_def emit_def split: option.splits)

lemma openDownload_props:
  "trace (openDownload s) = trace s @ effects s (openDownload s)"
  "m_saveFile (openDownload s) = m_saveFile s"
  "heap (openDownload s) = heap s"
  "files (openDownload s) = files s"
  "exited (openDownload s) = exited s"
  by (simp_all add: openDownload_def effects_def emit_def Let_def)

lemma openDownload_effects:
  "filter is_commit (effects s (openDownload s)) = []"
  "filter is_discard (effects s (openDownload s)) = []"
  "filter (is_commit_of a) (effects s (openDownload s)) = []"
  "filter (is_discard_of a) (effects s (openDownload s)) = []"
  by (simp_all add: openDownload_def effects_def emit_def Let_def)

lemma sf_commit_props:
  "trace (fst (sf_commit r a s)) = trace s @ [SaveFile_commit a (snd (sf_commit r a s))]"
  "m_saveFile (fst (sf_commit r a s)) = m_saveFile s"
  "m_url (fst (sf_commit r a s)) = m_url s"
  "m_fileName (fst (sf_commit r a s)) = m_fileName s"
  "m_downloadDir (fst (sf_commit r a s)) = m_downloadDir s"
  "m_useCustomProcedures (fst (sf_commit r a s)) = m_useCustomProcedures s"
  "exited (fst (sf_commit r a s)) = exited s"
  by (simp_all add: sf_commit_def emit_def Let_def split: option.splits)

lemma sf_commit_dom: "dom (heap (fst (sf_commit r a s))) = dom (heap s)"
proof (cases "heap s a")
  case None
  then show ?thesis by (simp add: sf_commit_def emit_def)
next
  case (Some f)
  then have "a \<in> dom (heap s)" by auto
  then have "insert a (dom (heap s)) = dom (heap s)" by auto
  with Some show ?thesis by (simp add: sf_commit_def emit_def Let_def)
qed

lemma sf_delete_props:
  "trace (sf_delete a s) = trace s @ [SaveFile_delete a]"
  "m_saveFile (sf_delete a s) = m_saveFile s"
  "heap (sf_delete a s) = (heap s)(a := None)"
  "files (sf_delete a s) = files s"
  "m_url (sf_delete a s) = m_url s"
  "m_fileName (sf_delete a s) = m_fileName s"
  "m_downloadDir (sf_delete a s) = m_downloadDir s"
  "m_useCustomProcedures (sf_delete a s) = m_useCustomProcedures s"
  "exited (sf_delete a s) = exited s"
  by (simp_all add: sf_delete_def emit_def)

lemma emit_props:
  "trace (emit e s) = trace s @ [e]"
  "m_saveFile (emit e s) = m_saveFile s"
  "heap (emit e s) = heap s"
  "files (emit e s) = files s"
  "m_reply (emit e s) = m_reply s"
  "m_useCustomProcedures (emit e s) = m_useCustomProcedures s"
  "exited (emit e s) = exited s"
  "visible (emit e s) = visible s"
  by (simp_all add: emit_def)

lemma reply_close_props:
  "trace (reply_close s) = trace s @ [Reply_close]"
  "m_saveFile (reply_close s) = m_saveFile s"
  "heap (reply_close s) = heap s"
  "files (reply_close s) = files s"
  "m_useCustomProcedures (reply_close s) = m_useCustomProcedures s"
  "exited (reply_close s) = exited s"
  by (simp_all add: reply_close_def emit_def)

lemmas step_props = write_received_props write_received_effects openDownload_props
  openDownload_effects sf_commit_props sf_delete_props emit_props reply_close_props

subsection \<open>The slot \<^verbatim>\<open>finished\<close>\<close>

lemma finished_error:
  assumes "r_error (m_reply s) \<noteq> NoError"
  shows "effects s (finished env s) =
           (case m_saveFile s of None \<Rightarrow> []
            | Some a \<Rightarrow> [SaveFile_cancelWriting a, SaveFile_delete a])
           @ [Warning (''Download error: '' @ r_errorString (m_reply s))]"
    and "m_saveFile (finished env s) = None"
    and "heap (finished env s) =
           (case m_saveFile s of None \<Rightarrow> heap s | Some a \<Rightarrow> (heap s)(a := None))"
    and "files (finished env s) = files s"
    and "m_reply (finished env s) = m_reply s"
    and "visible (finished env s) = visible s"
    and "exited (finished env s) = exited s"
  using assms by (simp_all add: finished_def effects_def emit_def discard_saveFile_props)

lemma finished_error_frame:
  assumes "r_error (m_reply s) \<noteq> NoError"
  shows "finished env s =
           s\<lparr>m_saveFile := None,
             heap := (case m_saveFile s of None \<Rightarrow> heap s | Some a \<Rightarrow> (heap s)(a := None)),
             trace := trace s
               @ (case m_saveFile s of None \<Rightarrow> []
                  | Some a \<Rightarrow> [SaveFile_cancelWriting a, SaveFile_delete a])
               @ [Warning (''Download error: '' @ r_errorString (m_reply s))]\<rparr>"
proof (cases "m_saveFile s")
  case None
  have "s\<lparr>m_saveFile := None\<rparr> = s"
    by (rule downloader.equality) (simp_all add: None)
  with None assms show ?thesis
    by (simp add: finished_def discard_saveFile_def emit_def)
next
  case (Some a)
  with assms show ?thesis
    by (simp add: finished_def discard_saveFile_def sf_delete_def sf_cancelWriting_def emit_def
        split: option.splits)
qed

lemma finished_effects:
  "effects s (finished env s) = drop (length (trace s)) (trace (finished env s))"
  by (simp add: effects_def)

lemma finished_success_artifact:
  assumes "r_error (m_reply s) = NoError" and "m_saveFile s = Some a"
  shows "length (filter (is_commit_of a) (effects s (finished env s))) = 1"
    and "filter (is_discard_of a) (effects s (finished env s)) = []"
    and "filter is_commit (effects s (finished env s)) \<noteq> []"
    and "filter is_discard (effects s (finished env s)) = []"
    and "m_saveFile (finished env s) = None"
    and "heap (finished env s) a = None"
  using assms unfolding finished_effects
  by (simp_all add: finished_def Let_def split_def step_props)

lemma finished_success_no_artifact:
  assumes "r_error (m_reply s) = NoError" and "m_saveFile s = None"
  shows "filter is_commit (effects s (finished env s)) = []"
    and "filter is_discard (effects s (finished env s)) = []"
    and "filter is_signal (effects s (finished env s)) = []"
    and "m_saveFile (finished env s) = None"
    and "files (finished env s) = files s"
  using assms unfolding finished_effects
  by (simp_all add: finished_def Let_def split_def step_props)

lemma finished_saveFile_None: "m_saveFile (finished env s) = None"
proof (cases "r_error (m_reply s) = NoError")
  case True
  then show ?thesis
    by (cases "m_saveFile s") (simp_all add: finished_success_no_artifact finished_success_artifact)
next
  case False
  then show ?thesis by (simp add: finished_error)
qed

lemmas sample_defs = s_started_def s_unnamed_done_def s_receiving_def s_timed_out_def
  s_redirected_def s_first_chunk_def env_ok_def env_accept_def env_open_fails_def
  Downloader_def new_reply_def setUrlId_def startDownload_def discard_saveFile_def emit_def
  complete_def receive_def respond_def processReceivedData_def setFileName_def remove_char_def
  sf_new_def sf_open_def sf_write_def sf_delete_def sf_cancelWriting_def sf_isOpen_at_def
  write_received_def filePath_def startsWith_def Let_def

text \<open>
  C1 (as amended). When the transfer completes, \<^verbatim>\<open>commit()\<close> is called if and only if
  the reply reports no error and a save file exists; \<^verbatim>\<open>cancelWriting()\<close> is called if
  and only if the reply reports an error and a save file exists. After an error the
  files at the final paths are what they were. In every case the Downloader holds no
  save file afterwards, and on a save file that existed exactly one of the two was
  called, once, and the object was destroyed.
\<close>

theorem finished_commit_xor_discard:
  "(filter is_commit (effects s (finished env s)) \<noteq> []
      \<longleftrightarrow> r_error (m_reply s) = NoError \<and> m_saveFile s \<noteq> None)
   \<and> (filter is_discard (effects s (finished env s)) \<noteq> []
      \<longleftrightarrow> r_error (m_reply s) \<noteq> NoError \<and> m_saveFile s \<noteq> None)
   \<and> (r_error (m_reply s) \<noteq> NoError \<longrightarrow> files (finished env s) = files s)
   \<and> m_saveFile (finished env s) = None
   \<and> (\<forall>a. m_saveFile s = Some a \<longrightarrow>
         length (filter (is_commit_of a) (effects s (finished env s)))
           + length (filter (is_discard_of a) (effects s (finished env s))) = 1
         \<and> heap (finished env s) a = None)"
proof (cases "r_error (m_reply s) = NoError")
  case True
  show ?thesis
  proof (cases "m_saveFile s")
    case None
    with True show ?thesis by (simp add: finished_success_no_artifact)
  next
    case (Some a)
    with True show ?thesis by (simp add: finished_success_artifact)
  qed
next
  case False
  show ?thesis
  proof (cases "m_saveFile s")
    case None
    with False show ?thesis by (simp add: finished_error [OF False])
  next
    case (Some a)
    with False show ?thesis by (simp add: finished_error [OF False])
  qed
qed

theorem finished_commit_xor_discard_witness:
  "r_error (m_reply s_timed_out) \<noteq> NoError \<and> m_saveFile s_timed_out = Some 0
   \<and> files (finished env_ok s_timed_out) = files s_timed_out
   \<and> length (filter (is_commit_of 0) (effects s_timed_out (finished env_ok s_timed_out)))
       + length (filter (is_discard_of 0) (effects s_timed_out (finished env_ok s_timed_out))) = 1
   \<and> heap (finished env_ok s_timed_out) 0 = None"
proof -
  have h: "r_error (m_reply s_timed_out) \<noteq> NoError \<and> m_saveFile s_timed_out = Some 0"
    by (simp add: sample_defs)
  with finished_commit_xor_discard [of s_timed_out env_ok] show ?thesis by simp
qed

theorem finished_commit_iff_success_counterexample:
  "\<not> (filter is_commit (effects s_unnamed_done (finished env_ok s_unnamed_done)) \<noteq> []
        \<longleftrightarrow> r_error (m_reply s_unnamed_done) = NoError)"
proof -
  have "r_error (m_reply s_unnamed_done) = NoError" and "m_saveFile s_unnamed_done = None"
    by (simp_all add: sample_defs)
  then show ?thesis by (simp add: finished_success_no_artifact)
qed

text \<open>
  C3 (as amended). When the transfer completes with a transport error, \<^verbatim>\<open>finished\<close>
  discards the save file, if there is one, and writes the transport's error description
  to the warning log; the transfer ends there, with nothing committed and no signal
  emitted, so the host is sent no failure event. The theorem states this together with
  the whole frame of the error branch: apart from the save file, which is gone, and the
  trace, which has grown by these calls, the state after the slot is the state before it.
\<close>

theorem finished_error_discards_and_warns:
  assumes "r_error (m_reply s) \<noteq> NoError"
  shows "effects s (finished env s) =
           (case m_saveFile s of None \<Rightarrow> []
            | Some a \<Rightarrow> [SaveFile_cancelWriting a, SaveFile_delete a])
           @ [Warning (''Download error: '' @ r_errorString (m_reply s))]
         \<and> filter is_signal (effects s (finished env s)) = []
         \<and> m_saveFile (finished env s) = None
         \<and> heap (finished env s) =
             (case m_saveFile s of None \<Rightarrow> heap s | Some a \<Rightarrow> (heap s)(a := None))
         \<and> files (finished env s) = files s
         \<and> m_reply (finished env s) = m_reply s
         \<and> visible (finished env s) = visible s
         \<and> finished env s =
             s\<lparr>m_saveFile := None,
               heap := (case m_saveFile s of None \<Rightarrow> heap s
                        | Some a \<Rightarrow> (heap s)(a := None)),
               trace := trace s
                 @ (case m_saveFile s of None \<Rightarrow> []
                    | Some a \<Rightarrow> [SaveFile_cancelWriting a, SaveFile_delete a])
                 @ [Warning (''Download error: '' @ r_errorString (m_reply s))]\<rparr>"
proof -
  have "effects s (finished env s) =
           (case m_saveFile s of None \<Rightarrow> []
            | Some a \<Rightarrow> [SaveFile_cancelWriting a, SaveFile_delete a])
           @ [Warning (''Download error: '' @ r_errorString (m_reply s))]
         \<and> filter is_signal (effects s (finished env s)) = []
         \<and> m_saveFile (finished env s) = None
         \<and> heap (finished env s) =
             (case m_saveFile s of None \<Rightarrow> heap s | Some a \<Rightarrow> (heap s)(a := None))
         \<and> files (finished env s) = files s
         \<and> m_reply (finished env s) = m_reply s
         \<and> visible (finished env s) = visible s"
    by (cases "m_saveFile s") (simp_all add: finished_error [OF assms])
  with finished_error_frame [OF assms, of env] show ?thesis
    by blast
qed

theorem finished_error_discards_and_warns_witness:
  "r_error (m_reply s_timed_out) \<noteq> NoError
   \<and> effects s_timed_out (finished env_ok s_timed_out) =
       [SaveFile_cancelWriting 0, SaveFile_delete 0,
        Warning ''Download error: Socket operation timed out'']
   \<and> m_saveFile (finished env_ok s_timed_out) = None
   \<and> visible (finished env_ok s_timed_out)
   \<and> finished env_ok s_timed_out =
       s_timed_out\<lparr>m_saveFile := None, heap := (heap s_timed_out)(0 := None),
         trace := trace s_timed_out
           @ [SaveFile_cancelWriting 0, SaveFile_delete 0,
              Warning ''Download error: Socket operation timed out'']\<rparr>"
proof -
  have h: "r_error (m_reply s_timed_out) \<noteq> NoError"
    by (simp add: sample_defs)
  have v: "m_saveFile s_timed_out = Some 0"
    "r_errorString (m_reply s_timed_out) = ''Socket operation timed out''"
    "visible s_timed_out"
    by (simp_all add: sample_defs)
  note t = finished_error_discards_and_warns [OF h, of env_ok]
  note t_effects = t [THEN conjunct1]
  note t_saveFile = t [THEN conjunct2, THEN conjunct2, THEN conjunct1]
  note t_visible = t [THEN conjunct2, THEN conjunct2, THEN conjunct2, THEN conjunct2,
      THEN conjunct2, THEN conjunct2, THEN conjunct1]
  note t_frame = t [THEN conjunct2, THEN conjunct2, THEN conjunct2, THEN conjunct2,
      THEN conjunct2, THEN conjunct2, THEN conjunct2]
  have "effects s_timed_out (finished env_ok s_timed_out) =
       [SaveFile_cancelWriting 0, SaveFile_delete 0,
        Warning ''Download error: Socket operation timed out'']"
    using t_effects by (simp add: v)
  moreover have "visible (finished env_ok s_timed_out)"
    using t_visible by (simp add: v)
  moreover have "finished env_ok s_timed_out =
       s_timed_out\<lparr>m_saveFile := None, heap := (heap s_timed_out)(0 := None),
         trace := trace s_timed_out
           @ [SaveFile_cancelWriting 0, SaveFile_delete 0,
              Warning ''Download error: Socket operation timed out'']\<rparr>"
    using t_frame by (simp add: v)
  ultimately show ?thesis using h t_saveFile by blast
qed

theorem finished_error_emits_failure_counterexample:
  "r_error (m_reply s_timed_out) = TimeoutError
   \<and> filter is_signal (effects s_timed_out (finished env_ok s_timed_out)) = []"
proof -
  have e: "r_error (m_reply s_timed_out) = TimeoutError" and "m_saveFile s_timed_out = Some 0"
    by (simp_all add: sample_defs)
  then show ?thesis by (simp add: finished_error)
qed

subsection \<open>File names\<close>

lemmas qstring_defs = mid_def mid_n_def left_def startsWith_def fileName_def indexOfFrom_def
  remove_char_def




lemma header_filename_examples:
  \<open>header_filename ''attachment; filename="a b.bin"'' 12 = ''a b.bin''\<close>
  \<open>header_filename ''attachment; filename=report.csv; size=100'' 12 = ''report.csv''\<close>
  \<open>header_filename ''attachment; filename=../secret'' 12 = ''secret''\<close>
  by (simp_all add: header_filename_def qstring_defs Let_def)

lemma metaDataChanged_absent: "r_contentDisposition (m_reply s) = None \<Longrightarrow> metaDataChanged s = s"
  by (simp add: metaDataChanged_def)

text \<open>
  C4 (the code at the failing input). For the header value
  \<^verbatim>\<open>attachment; filename=a b.bin; size=100\<close> the unquoted value is cut at the semicolon
  although a space comes first: the Downloader stores \<^verbatim>\<open>a b.bin\<close>, where cutting at
  the first semicolon or whitespace, whichever comes first, gives \<^verbatim>\<open>a\<close>.
\<close>

theorem metaDataChanged_space_before_semicolon:
  "m_fileName (metaDataChanged
      (respond (Some ''attachment; filename=a b.bin; size=100'') [] s_started)) = ''a b.bin''
   \<and> spec_unquoted_value ''a b.bin; size=100'' = ''a''"
  by (simp add: metaDataChanged_def respond_def header_filename_def qstring_defs
      setFileName_def spec_unquoted_value_def Let_def)

subsection \<open>Progress display\<close>

lemma round_2dp_of_int: "round_2dp (of_int k) = of_int k"
proof -
  have "\<lfloor>(of_int (k * 100) :: rat) + 1 / 2\<rfloor> = k * 100"
    by (rule floor_unique) simp_all
  moreover have "\<lfloor>(of_int (- (k * 100)) :: rat) + 1 / 2\<rfloor> = - (k * 100)"
    by (rule floor_unique) simp_all
  ultimately show ?thesis
    by (simp add: round_2dp_def roundf_def)
qed

lemma calculateSizes_truncates_total:
  assumes "1024 \<le> t" and "t < 1048576"
  shows "\<exists>r. downloadLabel (calculateSizes received t s) =
              Downloading_updates_of r (KB (of_int (t div 1024)))"
  using assms by (simp add: calculateSizes_def Let_def round_2dp_of_int signed_divide_int_def
      sgn_if)

lemma updateProgress_indeterminate:
  assumes "t \<le> 0"
  shows "updateProgress env received t s =
           Inr (s\<lparr>progress_min := 0, progress_max := 0, progress_value := - 1,
                  downloadLabel := Downloading_Updates_dots,
                  timeLabel := Time_Remaining_Unknown\<rparr>)"
  using assms by (simp add: updateProgress_def)

text \<open>
  C8 (the code at the failing input). For 1536 bytes received of 1536 the label reads
  \<^verbatim>\<open>1 KB of 1 KB\<close>: both counts are divided by 1024 as integers, which drops the
  fraction before \<^verbatim>\<open>round\<close> sees it (and the received count is not rounded at all).
  Rounded to two decimal places the count is 1.5 KB.
\<close>

theorem calculateSizes_truncates:
  "downloadLabel (calculateSizes 1536 1536 s) = Downloading_updates_of (KB 1) (KB 1)
   \<and> round_2dp (1536 / 1024) = 3 / 2"
proof -
  have "\<lfloor>(201::rat) / 2\<rfloor> = 100" and "\<lfloor>(301::rat) / 2\<rfloor> = 150"
    by (simp_all add: floor_unique)
  then show ?thesis
    by (simp add: calculateSizes_def round_2dp_def roundf_def Let_def signed_divide_int_def)
qed

lemma calculateTimeRemaining_no_elapsed:
  "e_now env = m_startTime s \<Longrightarrow> calculateTimeRemaining env received t s = Inr s"
  by (simp add: calculateTimeRemaining_def)

lemma calculateTimeRemaining_sample:
  "timeLabel (projr (calculateTimeRemaining (env\<lparr>e_now := m_startTime s + 10\<rparr>) 500 1000 s))
     = Time_remaining (Seconds 10)"
proof -
  have "\<lfloor>(21::rat) / 2\<rfloor> = 10"
    by (simp add: floor_unique)
  then show ?thesis
    by (simp add: calculateTimeRemaining_def Let_def signed_divide_int_def trunc_def)
qed

text \<open>
  C5 (the code at the failing input). Ten seconds after the start, a progress report
  with no byte received, or with five bytes received, makes the rate
  \<^verbatim>\<open>received / difference\<close> zero, and the next division divides by it: only the
  elapsed time is guarded, the received count is not. A clock that has stepped back by
  one second passes the guard as well, since the difference is unsigned, and divides by
  zero in the same way.
\<close>

theorem calculateTimeRemaining_divides_by_zero:
  "calculateTimeRemaining (env\<lparr>e_now := m_startTime s + 10\<rparr>) 0 1000 s = Inl DivisionByZero
   \<and> calculateTimeRemaining (env\<lparr>e_now := m_startTime s + 10\<rparr>) 5 1000 s = Inl DivisionByZero
   \<and> calculateTimeRemaining (env\<lparr>e_now := m_startTime s - 1\<rparr>) 500 1000 s = Inl DivisionByZero"
  by (simp add: calculateTimeRemaining_def Let_def signed_divide_int_def)

subsection \<open>Starting a download\<close>

lemma startDownload_props:
  "trace (startDownload env url s) = trace s
     @ (case m_saveFile s of None \<Rightarrow> []
        | Some a \<Rightarrow> [SaveFile_cancelWriting a, SaveFile_delete a])
     @ [Manager_get url (m_userAgentString s)]
     @ (if m_downloadDir s \<in> dirs s then [] else [Mkpath (m_downloadDir s)])"
  "m_saveFile (startDownload env url s) = None"
  "heap (startDownload env url s) =
     (case m_saveFile s of None \<Rightarrow> heap s | Some a \<Rightarrow> (heap s)(a := None))"
  "m_reply (startDownload env url s) = new_reply url"
  "m_fileName (startDownload env url s) = m_fileName s"
  "m_startTime (startDownload env url s) = e_now env"
  "files (startDownload env url s) = files s"
  "exited (startDownload env url s) = exited s"
  by (simp_all add: startDownload_def Let_def emit_def discard_saveFile_props
      split: option.splits)

lemma startDownload_effects:
  "effects s (startDownload env url s) =
     (case m_saveFile s of None \<Rightarrow> []
      | Some a \<Rightarrow> [SaveFile_cancelWriting a, SaveFile_delete a])
     @ [Manager_get url (m_userAgentString s)]
     @ (if m_downloadDir s \<in> dirs s then [] else [Mkpath (m_downloadDir s)])"
  by (rule effects_append) (simp add: startDownload_props)

subsection \<open>At most one save file\<close>

lemma finished_heap:
  "m_saveFile (finished env s) = None"
  "dom (heap (finished env s)) = dom (heap s) - set_option (m_saveFile s)"
proof -
  show "m_saveFile (finished env s) = None"
    by (rule finished_saveFile_None)
  show "dom (heap (finished env s)) = dom (heap s) - set_option (m_saveFile s)"
  proof (cases "r_error (m_reply s) = NoError")
    case False
    then show ?thesis
      by (cases "m_saveFile s") (simp_all add: finished_error)
  next
    case True
    then show ?thesis
      by (cases "m_saveFile s")
         (simp_all add: finished_def Let_def split_def step_props write_received_dom
            sf_commit_dom)
  qed
qed

lemma processReceivedData_heap:
  assumes "one_artifact s"
  shows "one_artifact (processReceivedData env s)"
proof (cases "r_redirectionTarget (m_reply s) \<noteq> []")
  case True
  with assms show ?thesis
    by (cases "m_saveFile s")
       (simp_all add: processReceivedData_def one_artifact_def startDownload_props)
next
  case False
  show ?thesis
  proof (cases "m_fileName s = []")
    case True
    with False assms show ?thesis by (simp add: processReceivedData_def)
  next
    case named: False
    show ?thesis
    proof (cases "m_saveFile s")
      case (Some a)
      with False named assms show ?thesis
        by (simp add: processReceivedData_def one_artifact_def write_received_props
            write_received_dom)
    next
      case None
      with assms have empty: "dom (heap s) = {}" by (simp add: one_artifact_def)
      show ?thesis
      proof (cases "e_open_ok env")
        case True
        with False named None empty show ?thesis
          by (simp add: processReceivedData_def one_artifact_def Let_def write_received_props
              write_received_dom sf_new_def sf_open_def emit_def)
      next
        case False
        with \<open>\<not> r_redirectionTarget (m_reply s) \<noteq> []\<close> named None empty show ?thesis
          by (simp add: processReceivedData_def one_artifact_def Let_def sf_new_def sf_open_def
              sf_delete_def emit_def)
      qed
    qed
  qed
qed

lemma finished_one_artifact:
  assumes "one_artifact s"
  shows "one_artifact (finished env s)"
  using assms by (simp add: one_artifact_def finished_heap)

lemma reply_abort_one_artifact:
  assumes "one_artifact s"
  shows "one_artifact (reply_abort env s)"
proof (cases "r_isFinished (m_reply s)")
  case True
  with assms show ?thesis by (simp add: reply_abort_def one_artifact_def emit_def)
next
  case False
  have "one_artifact ((emit Reply_abort s)
          \<lparr>m_reply := (m_reply s)\<lparr>r_error := OperationCanceledError,
                                 r_errorString := ''Operation canceled'',
                                 r_isFinished := True\<rparr>\<rparr>)"
    using assms by (simp add: one_artifact_def emit_def)
  with False show ?thesis
    by (simp add: reply_abort_def finished_one_artifact)
qed

lemma one_artifact_frame:
  "one_artifact (hide s) = one_artifact s"
  "one_artifact (process_exit c s) = one_artifact s"
  "one_artifact (emit e s) = one_artifact s"
  "one_artifact (setFileName file s) = one_artifact s"
  "one_artifact (respond cd target s) = one_artifact s"
  "one_artifact (receive bs s) = one_artifact s"
  "one_artifact (complete err msg s) = one_artifact s"
  by (simp_all add: one_artifact_def hide_def process_exit_def emit_def setFileName_def
      respond_def receive_def complete_def Let_def)

lemma metaDataChanged_one_artifact: "one_artifact (metaDataChanged s) = one_artifact s"
  by (simp add: metaDataChanged_def Let_def one_artifact_frame split: option.splits)

lemma cancelDownload_one_artifact:
  assumes "one_artifact s"
  shows "one_artifact (cancelDownload env s)"
  using assms
  by (simp add: cancelDownload_def Let_def one_artifact_frame reply_abort_one_artifact)

lemma startDownload_one_artifact:
  assumes "one_artifact s"
  shows "one_artifact (startDownload env url s)"
  using assms by (cases "m_saveFile s") (simp_all add: one_artifact_def startDownload_props)

lemma fire_one_artifact:
  assumes "one_artifact s"
  shows "one_artifact (fire env ev s)"
  using assms
  by (cases ev)
     (simp_all add: startDownload_one_artifact one_artifact_frame metaDataChanged_one_artifact
        processReceivedData_heap finished_one_artifact cancelDownload_one_artifact)

lemma run_one_artifact:
  assumes "one_artifact s"
  shows "one_artifact (run evs s)"
  using assms by (induction evs arbitrary: s) (auto simp: fire_one_artifact)

lemma Downloader_one_artifact: "one_artifact (Downloader home fs ds)"
  by (simp add: one_artifact_def Downloader_def)

text \<open>
  C7. When \<^verbatim>\<open>startDownload\<close> is called while a save file exists, the first things it
  does are \<^verbatim>\<open>cancelWriting()\<close> and \<^verbatim>\<open>delete\<close> on that save file, and only then the
  request is issued; afterwards the Downloader holds no save file and the object is
  gone. If the save file it held was the only one on the heap, none is left, and from
  then on, whatever events follow, the heap holds exactly the save file the Downloader
  points to, if any.
\<close>

theorem startDownload_discards_open_artifact:
  assumes "m_saveFile s = Some a"
  shows "effects s (startDownload env url s) =
           [SaveFile_cancelWriting a, SaveFile_delete a, Manager_get url (m_userAgentString s)]
           @ (if m_downloadDir s \<in> dirs s then [] else [Mkpath (m_downloadDir s)])
         \<and> m_saveFile (startDownload env url s) = None
         \<and> heap (startDownload env url s) a = None
         \<and> files (startDownload env url s) = files s
         \<and> (one_artifact s \<longrightarrow>
              dom (heap (startDownload env url s)) = {}
              \<and> (\<forall>evs. one_artifact (run evs (startDownload env url s))))"
proof -
  have "one_artifact (run evs (startDownload env url s))" if "one_artifact s" for evs
    using that by (simp add: run_one_artifact startDownload_one_artifact)
  moreover have "dom (heap (startDownload env url s)) = {}" if "one_artifact s"
    using that assms by (simp add: one_artifact_def startDownload_props)
  ultimately show ?thesis
    using assms by (simp add: startDownload_effects startDownload_props)
qed

theorem startDownload_discards_open_artifact_witness:
  "m_saveFile s_receiving = Some 0 \<and> one_artifact s_receiving
   \<and> effects s_receiving (startDownload env_ok ''http://host/next'' s_receiving) =
       [SaveFile_cancelWriting 0, SaveFile_delete 0, Manager_get ''http://host/next'' []]
   \<and> m_saveFile (startDownload env_ok ''http://host/next'' s_receiving) = None
   \<and> dom (heap (startDownload env_ok ''http://host/next'' s_receiving)) = {}
   \<and> one_artifact (run [(env_ok, ReadyRead ''CD'')]
         (startDownload env_ok ''http://host/next'' s_receiving))"
proof -
  have h: "m_saveFile s_receiving = Some 0"
    by (simp add: sample_defs)
  have i: "one_artifact s_receiving"
    by (simp add: one_artifact_def sample_defs)
  have "m_userAgentString s_receiving = []" and "m_downloadDir s_receiving \<in> dirs s_receiving"
    by (simp_all add: sample_defs)
  with h i startDownload_discards_open_artifact [OF h, of env_ok "''http://host/next''"]
  show ?thesis by (simp del: run.simps)
qed

text \<open>
  C6 (as amended). When bytes arrive on a reply that carries a redirection target,
  \<^verbatim>\<open>processReceivedData\<close> starts the download again at the target: the save file, if
  any, is discarded and a new request is issued. The file name is not touched: it is
  the one the Downloader had before the redirect, and it stays so when the headers of
  the new response carry no \<^verbatim>\<open>filename=\<close>.
\<close>

theorem processReceivedData_redirect_keeps_fileName:
  assumes "r_redirectionTarget (m_reply s) \<noteq> []"
  shows "m_reply (processReceivedData env s) = new_reply (r_redirectionTarget (m_reply s))
         \<and> Manager_get (r_redirectionTarget (m_reply s)) (m_userAgentString s)
             \<in> set (effects s (processReceivedData env s))
         \<and> m_saveFile (processReceivedData env s) = None
         \<and> m_fileName (processReceivedData env s) = m_fileName s
         \<and> m_fileName (metaDataChanged (respond None target (processReceivedData env s)))
             = m_fileName s
         \<and> (indexOf cd ''filename='' < 0 \<longrightarrow>
              m_fileName (metaDataChanged (respond (Some cd) target (processReceivedData env s)))
                = m_fileName s)"
proof -
  have eq: "processReceivedData env s = startDownload env (r_redirectionTarget (m_reply s)) s"
    using assms by (simp add: processReceivedData_def)
  show ?thesis
    unfolding eq
    by (simp add: startDownload_effects startDownload_props metaDataChanged_def respond_def
        Let_def)
qed

theorem processReceivedData_redirect_keeps_fileName_witness:
  "r_redirectionTarget (m_reply s_redirected) \<noteq> []
   \<and> indexOf ''inline'' ''filename='' < 0
   \<and> m_reply (processReceivedData env_ok s_redirected) = new_reply ''http://mirror/update''
   \<and> m_fileName (processReceivedData env_ok s_redirected) = ''old.bin''
   \<and> m_fileName (metaDataChanged (respond (Some ''inline'') []
        (processReceivedData env_ok s_redirected))) = ''old.bin''"
proof -
  have h: "r_redirectionTarget (m_reply s_redirected) \<noteq> []"
    and t: "r_redirectionTarget (m_reply s_redirected) = ''http://mirror/update''"
    by (simp_all add: sample_defs metaDataChanged_def)
  have n: "m_fileName s_redirected = ''old.bin''"
    by (simp add: sample_defs metaDataChanged_def header_filename_def mid_def left_def
        fileName_def)
  have i: "indexOf ''inline'' ''filename='' < 0"
    by simp
  from processReceivedData_redirect_keeps_fileName
         [OF h, where env = env_ok and cd = "''inline''" and target = "[]"] h t n i
  show ?thesis by simp
qed

theorem redirect_discards_fileName_counterexample:
  "r_redirectionTarget (m_reply s_redirected) = ''http://mirror/update''
   \<and> m_fileName (processReceivedData env_ok s_redirected) = ''old.bin''
   \<and> map_option sf_fileName
        (heap (processReceivedData env_ok (receive ''AB''
                 (metaDataChanged (respond None [] (processReceivedData env_ok s_redirected))))) 0)
       = Some ''/home/u/Downloads/old.bin''"
  by (simp add: sample_defs metaDataChanged_def header_filename_def mid_def left_def
      fileName_def)

subsection \<open>A staging file that does not open\<close>

lemma processReceivedData_open_fails:
  assumes "r_redirectionTarget (m_reply s) = []" and "m_fileName s \<noteq> []"
    and "m_saveFile s = None" and "\<not> e_open_ok env"
  shows "processReceivedData env s =
           s\<lparr>heap := (heap s)(next_addr s := None), next_addr := Suc (next_addr s),
             trace := trace s @
               [SaveFile_new (next_addr s) (filePath (m_downloadDir s) (m_fileName s)),
                SaveFile_open (next_addr s) False,
                Warning ''Failed to open file for writing'',
                SaveFile_delete (next_addr s)]\<rparr>"
  using assms
  by (simp add: processReceivedData_def Let_def sf_new_def sf_open_def sf_delete_def emit_def)

lemma processReceivedData_opens:
  assumes "r_redirectionTarget (m_reply s) = []" and "m_fileName s \<noteq> []"
    and "m_saveFile s = None" and "e_open_ok env" and "e_write_ok env"
  shows "m_saveFile (processReceivedData env s) = Some (next_addr s)"
    and "heap (processReceivedData env s) (next_addr s) =
           Some \<lparr>sf_fileName = filePath (m_downloadDir s) (m_fileName s), sf_isOpen = True,
                 sf_data = r_bytes (m_reply s), sf_error = False\<rparr>"
    and "r_bytes (m_reply (processReceivedData env s)) = []"
  using assms
  by (simp_all add: processReceivedData_def Let_def sf_new_def sf_open_def sf_write_def
      sf_isOpen_at_def write_received_def emit_def)

text \<open>
  C10 (as amended). When the staging file cannot be opened, \<^verbatim>\<open>processReceivedData\<close>
  destroys the file object, logs a warning and returns: no signal is emitted, the
  Downloader holds no save file, and nothing else changes. The bytes of the chunk are
  not read: they stay in the reply. The next data event tries to open the file again,
  and when that succeeds it writes everything the reply holds, the earlier chunk first.
\<close>

theorem processReceivedData_open_failure_retried:
  assumes "r_redirectionTarget (m_reply s) = []" and "m_fileName s \<noteq> []"
    and "m_saveFile s = None" and "\<not> e_open_ok env"
  shows "effects s (processReceivedData env s) =
           [SaveFile_new (next_addr s) (filePath (m_downloadDir s) (m_fileName s)),
            SaveFile_open (next_addr s) False,
            Warning ''Failed to open file for writing'',
            SaveFile_delete (next_addr s)]
         \<and> m_saveFile (processReceivedData env s) = None
         \<and> heap (processReceivedData env s) (next_addr s) = None
         \<and> m_reply (processReceivedData env s) = m_reply s
         \<and> files (processReceivedData env s) = files s
         \<and> visible (processReceivedData env s) = visible s
         \<and> exited (processReceivedData env s) = exited s
         \<and> (e_open_ok env2 \<and> e_write_ok env2 \<longrightarrow>
              m_saveFile (processReceivedData env2 (receive bs (processReceivedData env s)))
                = Some (Suc (next_addr s))
              \<and> heap (processReceivedData env2 (receive bs (processReceivedData env s)))
                  (Suc (next_addr s))
                = Some \<lparr>sf_fileName = filePath (m_downloadDir s) (m_fileName s),
                        sf_isOpen = True, sf_data = r_bytes (m_reply s) @ bs,
                        sf_error = False\<rparr>)"
proof -
  let ?s1 = "processReceivedData env s"
  note eq = processReceivedData_open_fails [OF assms]
  have first: "effects s ?s1 =
           [SaveFile_new (next_addr s) (filePath (m_downloadDir s) (m_fileName s)),
            SaveFile_open (next_addr s) False,
            Warning ''Failed to open file for writing'',
            SaveFile_delete (next_addr s)]"
    by (rule effects_append) (simp add: eq)
  have frame: "m_saveFile ?s1 = None" "heap ?s1 (next_addr s) = None" "m_reply ?s1 = m_reply s"
    "files ?s1 = files s" "visible ?s1 = visible s" "exited ?s1 = exited s"
    "next_addr ?s1 = Suc (next_addr s)" "m_fileName ?s1 = m_fileName s"
    "m_downloadDir ?s1 = m_downloadDir s"
    using assms by (simp_all add: eq)
  have pre: "r_redirectionTarget (m_reply (receive bs ?s1)) = []"
    "m_fileName (receive bs ?s1) \<noteq> []" "m_saveFile (receive bs ?s1) = None"
    "next_addr (receive bs ?s1) = Suc (next_addr s)"
    "filePath (m_downloadDir (receive bs ?s1)) (m_fileName (receive bs ?s1))
       = filePath (m_downloadDir s) (m_fileName s)"
    "r_bytes (m_reply (receive bs ?s1)) = r_bytes (m_reply s) @ bs"
    using assms by (simp_all add: receive_def frame)
  have retry: "m_saveFile (processReceivedData env2 (receive bs ?s1)) = Some (Suc (next_addr s))
      \<and> heap (processReceivedData env2 (receive bs ?s1)) (Suc (next_addr s))
          = Some \<lparr>sf_fileName = filePath (m_downloadDir s) (m_fileName s),
                  sf_isOpen = True, sf_data = r_bytes (m_reply s) @ bs, sf_error = False\<rparr>"
    if "e_open_ok env2" and "e_write_ok env2"
    using processReceivedData_opens(1,2) [OF pre(1-3) that] by (simp add: pre)
  from first frame retry show ?thesis by blast
qed

theorem processReceivedData_open_failure_retried_witness:
  "r_redirectionTarget (m_reply s_first_chunk) = [] \<and> m_fileName s_first_chunk \<noteq> []
   \<and> m_saveFile s_first_chunk = None \<and> \<not> e_open_ok env_open_fails
   \<and> e_open_ok env_ok \<and> e_write_ok env_ok
   \<and> m_reply (processReceivedData env_open_fails s_first_chunk) = m_reply s_first_chunk
   \<and> m_saveFile (processReceivedData env_open_fails s_first_chunk) = None
   \<and> heap (processReceivedData env_ok (receive ''CD''
              (processReceivedData env_open_fails s_first_chunk))) 1
       = Some \<lparr>sf_fileName = ''/home/u/Downloads/update.bin'', sf_isOpen = True,
               sf_data = ''ABCD'', sf_error = False\<rparr>"
proof -
  have h: "r_redirectionTarget (m_reply s_first_chunk) = []" "m_fileName s_first_chunk \<noteq> []"
    "m_saveFile s_first_chunk = None" "\<not> e_open_ok env_open_fails"
    by (simp_all add: sample_defs)
  have e: "e_open_ok env_ok \<and> e_write_ok env_ok"
    by (simp add: env_ok_def)
  have v: "next_addr s_first_chunk = 0"
    "filePath (m_downloadDir s_first_chunk) (m_fileName s_first_chunk)
       = ''/home/u/Downloads/update.bin''"
    "r_bytes (m_reply s_first_chunk) = ''AB''"
    by (simp_all add: sample_defs)
  from processReceivedData_open_failure_retried
         [OF h, where ?env2.0 = env_ok and bs = "''CD''"] h e v
  show ?thesis by simp
qed

theorem open_failure_drops_chunk_counterexample:
  "r_bytes (m_reply (processReceivedData env_open_fails s_first_chunk)) = ''AB''
   \<and> map_option sf_data
        (heap (processReceivedData env_ok (receive ''CD''
                 (processReceivedData env_open_fails s_first_chunk))) 1) = Some ''ABCD''"
  by (simp add: sample_defs)

subsection \<open>Cancelling\<close>

lemma reply_abort_in_flight:
  assumes "\<not> r_isFinished (m_reply s)"
  shows "trace (reply_abort env s) = trace s
           @ [Reply_abort]
           @ (case m_saveFile s of None \<Rightarrow> []
              | Some a \<Rightarrow> [SaveFile_cancelWriting a, SaveFile_delete a])
           @ [Warning ''Download error: Operation canceled'']"
    and "m_saveFile (reply_abort env s) = None"
    and "r_error (m_reply (reply_abort env s)) = OperationCanceledError"
    and "r_isFinished (m_reply (reply_abort env s))"
    and "visible (reply_abort env s) = visible s"
    and "exited (reply_abort env s) = exited s"
    and "files (reply_abort env s) = files s"
  using assms
  by (simp_all add: reply_abort_def finished_def emit_def discard_saveFile_props
      split: option.splits)

lemma discard_effects_filter:
  "filter is_signal (case m of None \<Rightarrow> []
      | Some a \<Rightarrow> [SaveFile_cancelWriting a, SaveFile_delete a]) = []"
  "filter is_exit (case m of None \<Rightarrow> []
      | Some a \<Rightarrow> [SaveFile_cancelWriting a, SaveFile_delete a]) = []"
  "filter is_abort (case m of None \<Rightarrow> []
      | Some a \<Rightarrow> [SaveFile_cancelWriting a, SaveFile_delete a]) = []"
  "filter is_prompt (case m of None \<Rightarrow> []
      | Some a \<Rightarrow> [SaveFile_cancelWriting a, SaveFile_delete a]) = []"
  by (simp_all split: option.splits)

lemma cancelDownload_quit:
  assumes "\<not> r_isFinished (m_reply s)" and "m_mandatoryUpdate s" and "e_clicked env = QuitButton"
  shows "effects s (cancelDownload env s) =
           [MessageBox_question Continue_Quit, Reply_abort]
           @ (case m_saveFile s of None \<Rightarrow> []
              | Some a \<Rightarrow> [SaveFile_cancelWriting a, SaveFile_delete a])
           @ [Warning ''Download error: Operation canceled'', Process_exit 0]"
    and "exited (cancelDownload env s) = Some 0"
    and "r_error (m_reply (cancelDownload env s)) = OperationCanceledError"
    and "r_isFinished (m_reply (cancelDownload env s))"
    and "m_saveFile (cancelDownload env s) = None"
    and "\<not> visible (cancelDownload env s)"
    and "files (cancelDownload env s) = files s"
proof -
  let ?s1 = "hide (emit (MessageBox_question Continue_Quit) s)"
  have s1: "\<not> r_isFinished (m_reply ?s1)" "m_saveFile ?s1 = m_saveFile s"
    "trace ?s1 = trace s @ [MessageBox_question Continue_Quit]" "\<not> visible ?s1"
    "files ?s1 = files s"
    using assms by (simp_all add: hide_def emit_def)
  have eq: "cancelDownload env s = process_exit 0 (reply_abort env ?s1)"
    using assms by (simp add: cancelDownload_def Let_def)
  show "effects s (cancelDownload env s) =
           [MessageBox_question Continue_Quit, Reply_abort]
           @ (case m_saveFile s of None \<Rightarrow> []
              | Some a \<Rightarrow> [SaveFile_cancelWriting a, SaveFile_delete a])
           @ [Warning ''Download error: Operation canceled'', Process_exit 0]"
    by (rule effects_append)
       (simp add: eq process_exit_def emit_props reply_abort_in_flight [OF s1(1)] s1)
  show "exited (cancelDownload env s) = Some 0"
    by (simp add: eq process_exit_def)
  show "r_error (m_reply (cancelDownload env s)) = OperationCanceledError"
    by (simp add: eq process_exit_def emit_props reply_abort_in_flight [OF s1(1)])
  show "r_isFinished (m_reply (cancelDownload env s))"
    by (simp add: eq process_exit_def emit_props reply_abort_in_flight [OF s1(1)])
  show "m_saveFile (cancelDownload env s) = None"
    by (simp add: eq process_exit_def emit_props reply_abort_in_flight [OF s1(1)])
  show "\<not> visible (cancelDownload env s)"
    by (simp add: eq process_exit_def emit_props reply_abort_in_flight [OF s1(1)] s1)
  show "files (cancelDownload env s) = files s"
    by (simp add: eq process_exit_def emit_props reply_abort_in_flight [OF s1(1)] s1)
qed

lemma cancelDownload_yes:
  assumes "\<not> r_isFinished (m_reply s)" and "\<not> m_mandatoryUpdate s" and "e_answer env = Yes"
  shows "effects s (cancelDownload env s) =
           [MessageBox_question Yes_No, Reply_abort]
           @ (case m_saveFile s of None \<Rightarrow> []
              | Some a \<Rightarrow> [SaveFile_cancelWriting a, SaveFile_delete a])
           @ [Warning ''Download error: Operation canceled'']"
    and "exited (cancelDownload env s) = exited s"
    and "r_error (m_reply (cancelDownload env s)) = OperationCanceledError"
    and "r_isFinished (m_reply (cancelDownload env s))"
    and "m_saveFile (cancelDownload env s) = None"
    and "\<not> visible (cancelDownload env s)"
    and "files (cancelDownload env s) = files s"
proof -
  let ?s1 = "hide (emit (MessageBox_question Yes_No) s)"
  have s1: "\<not> r_isFinished (m_reply ?s1)" "m_saveFile ?s1 = m_saveFile s"
    "trace ?s1 = trace s @ [MessageBox_question Yes_No]" "\<not> visible ?s1"
    "files ?s1 = files s" "exited ?s1 = exited s"
    using assms by (simp_all add: hide_def emit_def)
  have eq: "cancelDownload env s = reply_abort env ?s1"
    using assms by (simp add: cancelDownload_def Let_def)
  show "effects s (cancelDownload env s) =
           [MessageBox_question Yes_No, Reply_abort]
           @ (case m_saveFile s of None \<Rightarrow> []
              | Some a \<Rightarrow> [SaveFile_cancelWriting a, SaveFile_delete a])
           @ [Warning ''Download error: Operation canceled'']"
    by (rule effects_append) (simp add: eq reply_abort_in_flight [OF s1(1)] s1)
  show "exited (cancelDownload env s) = exited s"
    by (simp add: eq reply_abort_in_flight [OF s1(1)] s1)
  show "r_error (m_reply (cancelDownload env s)) = OperationCanceledError"
    by (simp add: eq reply_abort_in_flight [OF s1(1)])
  show "r_isFinished (m_reply (cancelDownload env s))"
    by (simp add: eq reply_abort_in_flight [OF s1(1)])
  show "m_saveFile (cancelDownload env s) = None"
    by (simp add: eq reply_abort_in_flight [OF s1(1)])
  show "\<not> visible (cancelDownload env s)"
    by (simp add: eq reply_abort_in_flight [OF s1(1)] s1)
  show "files (cancelDownload env s) = files s"
    by (simp add: eq reply_abort_in_flight [OF s1(1)] s1)
qed

text \<open>
  C2. The cancellation matrix of \<^verbatim>\<open>cancelDownload\<close>.
  \<^item> Mandatory update, transfer in flight, the user clicks Quit: the transport is aborted
    once (which ends the reply with \<^verbatim>\<open>OperationCanceledError\<close> and discards the save
    file), the dialog is hidden, and the process exits with code 0, once; no completion
    signal is emitted.
  \<^item> Mandatory update, transfer in flight, the user clicks Continue: nothing changes
    (the trace records that the question was asked).
  \<^item> Mandatory update, transfer not in flight: the process exits with code 0 and no
    question is asked.
  \<^item> Optional update, transfer in flight, the user answers Yes: the transport is aborted
    once, the dialog is hidden, no completion signal is emitted and the process goes on.
  \<^item> Optional update, transfer in flight, the user answers No: nothing changes.
  \<^item> Optional update, transfer not in flight: the dialog is hidden and nothing else
    happens.
\<close>

theorem cancelDownload_matrix:
  "(\<not> r_isFinished (m_reply s) \<and> m_mandatoryUpdate s \<and> e_clicked env = QuitButton \<longrightarrow>
      length (filter is_abort (effects s (cancelDownload env s))) = 1
      \<and> length (filter is_exit (effects s (cancelDownload env s))) = 1
      \<and> last (effects s (cancelDownload env s)) = Process_exit 0
      \<and> filter is_signal (effects s (cancelDownload env s)) = []
      \<and> exited (cancelDownload env s) = Some 0
      \<and> r_error (m_reply (cancelDownload env s)) = OperationCanceledError
      \<and> m_saveFile (cancelDownload env s) = None
      \<and> \<not> visible (cancelDownload env s))
   \<and> (\<not> r_isFinished (m_reply s) \<and> m_mandatoryUpdate s \<and> e_clicked env = ContinueButton \<longrightarrow>
      cancelDownload env s = s\<lparr>trace := trace s @ [MessageBox_question Continue_Quit]\<rparr>)
   \<and> (r_isFinished (m_reply s) \<and> m_mandatoryUpdate s \<longrightarrow>
      effects s (cancelDownload env s) = [Process_exit 0]
      \<and> exited (cancelDownload env s) = Some 0
      \<and> \<not> visible (cancelDownload env s))
   \<and> (\<not> r_isFinished (m_reply s) \<and> \<not> m_mandatoryUpdate s \<and> e_answer env = Yes \<longrightarrow>
      length (filter is_abort (effects s (cancelDownload env s))) = 1
      \<and> filter is_exit (effects s (cancelDownload env s)) = []
      \<and> filter is_signal (effects s (cancelDownload env s)) = []
      \<and> exited (cancelDownload env s) = exited s
      \<and> r_error (m_reply (cancelDownload env s)) = OperationCanceledError
      \<and> m_saveFile (cancelDownload env s) = None
      \<and> \<not> visible (cancelDownload env s))
   \<and> (\<not> r_isFinished (m_reply s) \<and> \<not> m_mandatoryUpdate s \<and> e_answer env = No \<longrightarrow>
      cancelDownload env s = s\<lparr>trace := trace s @ [MessageBox_question Yes_No]\<rparr>)
   \<and> (r_isFinished (m_reply s) \<and> \<not> m_mandatoryUpdate s \<longrightarrow>
      cancelDownload env s = s\<lparr>visible := False\<rparr>)"
proof (intro conjI impI)
  assume a: "\<not> r_isFinished (m_reply s) \<and> m_mandatoryUpdate s \<and> e_clicked env = QuitButton"
  then have q: "\<not> r_isFinished (m_reply s)" "m_mandatoryUpdate s" "e_clicked env = QuitButton"
    by simp_all
  note c = cancelDownload_quit [OF q]
  show "length (filter is_abort (effects s (cancelDownload env s))) = 1"
    by (simp add: c(1) discard_effects_filter)
  show "length (filter is_exit (effects s (cancelDownload env s))) = 1"
    by (simp add: c(1) discard_effects_filter)
  show "last (effects s (cancelDownload env s)) = Process_exit 0"
    by (simp add: c(1))
  show "filter is_signal (effects s (cancelDownload env s)) = []"
    by (simp add: c(1) discard_effects_filter)
  show "exited (cancelDownload env s) = Some 0" by (rule c(2))
  show "r_error (m_reply (cancelDownload env s)) = OperationCanceledError" by (rule c(3))
  show "m_saveFile (cancelDownload env s) = None" by (rule c(5))
  show "\<not> visible (cancelDownload env s)" by (rule c(6))
next
  assume "\<not> r_isFinished (m_reply s) \<and> m_mandatoryUpdate s \<and> e_clicked env = ContinueButton"
  then show "cancelDownload env s = s\<lparr>trace := trace s @ [MessageBox_question Continue_Quit]\<rparr>"
    by (simp add: cancelDownload_def Let_def emit_def)
next
  assume a: "r_isFinished (m_reply s) \<and> m_mandatoryUpdate s"
  then have eq: "cancelDownload env s = process_exit 0 (hide s)"
    by (simp add: cancelDownload_def)
  show "effects s (cancelDownload env s) = [Process_exit 0]"
    by (rule effects_append) (simp add: eq process_exit_def hide_def emit_def)
  show "exited (cancelDownload env s) = Some 0"
    by (simp add: eq process_exit_def)
  show "\<not> visible (cancelDownload env s)"
    by (simp add: eq process_exit_def hide_def emit_def)
next
  assume a: "\<not> r_isFinished (m_reply s) \<and> \<not> m_mandatoryUpdate s \<and> e_answer env = Yes"
  then have q: "\<not> r_isFinished (m_reply s)" "\<not> m_mandatoryUpdate s" "e_answer env = Yes"
    by simp_all
  note c = cancelDownload_yes [OF q]
  show "length (filter is_abort (effects s (cancelDownload env s))) = 1"
    by (simp add: c(1) discard_effects_filter)
  show "filter is_exit (effects s (cancelDownload env s)) = []"
    by (simp add: c(1) discard_effects_filter)
  show "filter is_signal (effects s (cancelDownload env s)) = []"
    by (simp add: c(1) discard_effects_filter)
  show "exited (cancelDownload env s) = exited s" by (rule c(2))
  show "r_error (m_reply (cancelDownload env s)) = OperationCanceledError" by (rule c(3))
  show "m_saveFile (cancelDownload env s) = None" by (rule c(5))
  show "\<not> visible (cancelDownload env s)" by (rule c(6))
next
  assume "\<not> r_isFinished (m_reply s) \<and> \<not> m_mandatoryUpdate s \<and> e_answer env = No"
  then show "cancelDownload env s = s\<lparr>trace := trace s @ [MessageBox_question Yes_No]\<rparr>"
    by (simp add: cancelDownload_def Let_def emit_def)
next
  assume "r_isFinished (m_reply s) \<and> \<not> m_mandatoryUpdate s"
  then show "cancelDownload env s = s\<lparr>visible := False\<rparr>"
    by (simp add: cancelDownload_def hide_def)
qed

theorem cancelDownload_matrix_witness:
  "(\<not> r_isFinished (m_reply (setMandatoryUpdate True s_receiving))
      \<and> m_mandatoryUpdate (setMandatoryUpdate True s_receiving)
      \<and> e_clicked env_accept = QuitButton
      \<and> exited (cancelDownload env_accept (setMandatoryUpdate True s_receiving)) = Some 0
      \<and> length (filter is_abort (effects (setMandatoryUpdate True s_receiving)
            (cancelDownload env_accept (setMandatoryUpdate True s_receiving)))) = 1)
   \<and> (e_clicked env_ok = ContinueButton
      \<and> cancelDownload env_ok (setMandatoryUpdate True s_receiving) =
          (setMandatoryUpdate True s_receiving)
            \<lparr>trace := trace (setMandatoryUpdate True s_receiving)
               @ [MessageBox_question Continue_Quit]\<rparr>)
   \<and> (r_isFinished (m_reply (setMandatoryUpdate True s_timed_out))
      \<and> m_mandatoryUpdate (setMandatoryUpdate True s_timed_out)
      \<and> effects (setMandatoryUpdate True s_timed_out)
           (cancelDownload env_ok (setMandatoryUpdate True s_timed_out)) = [Process_exit 0])
   \<and> (\<not> r_isFinished (m_reply s_receiving) \<and> \<not> m_mandatoryUpdate s_receiving
      \<and> e_answer env_accept = Yes
      \<and> filter is_signal (effects s_receiving (cancelDownload env_accept s_receiving)) = []
      \<and> exited (cancelDownload env_accept s_receiving) = None
      \<and> \<not> visible (cancelDownload env_accept s_receiving))
   \<and> (e_answer env_ok = No
      \<and> cancelDownload env_ok s_receiving =
          s_receiving\<lparr>trace := trace s_receiving @ [MessageBox_question Yes_No]\<rparr>)
   \<and> (r_isFinished (m_reply s_timed_out) \<and> \<not> m_mandatoryUpdate s_timed_out
      \<and> cancelDownload env_ok s_timed_out = s_timed_out\<lparr>visible := False\<rparr>)"
proof -
  have m: "\<not> r_isFinished (m_reply (setMandatoryUpdate True s_receiving))"
    "m_mandatoryUpdate (setMandatoryUpdate True s_receiving)"
    "r_isFinished (m_reply (setMandatoryUpdate True s_timed_out))"
    "m_mandatoryUpdate (setMandatoryUpdate True s_timed_out)"
    by (simp_all add: sample_defs setMandatoryUpdate_def)
  have opt: "\<not> r_isFinished (m_reply s_receiving)" "\<not> m_mandatoryUpdate s_receiving"
    "r_isFinished (m_reply s_timed_out)" "\<not> m_mandatoryUpdate s_timed_out"
    "exited s_receiving = None"
    by (simp_all add: sample_defs)
  have e: "e_clicked env_accept = QuitButton" "e_answer env_accept = Yes"
    "e_clicked env_ok = ContinueButton" "e_answer env_ok = No"
    by (simp_all add: env_accept_def env_ok_def)
  from cancelDownload_matrix [of "setMandatoryUpdate True s_receiving" env_accept]
    cancelDownload_matrix [of "setMandatoryUpdate True s_receiving" env_ok]
    cancelDownload_matrix [of "setMandatoryUpdate True s_timed_out" env_ok]
    cancelDownload_matrix [of s_receiving env_accept]
    cancelDownload_matrix [of s_receiving env_ok]
    cancelDownload_matrix [of s_timed_out env_ok]
    m opt e
  show ?thesis by simp
qed

end
